theory Spec2Isabelle
  imports Main
begin

section \<open>Data model of \<open>focusclock/logic.py\<close>\<close>

text \<open>
  The string-valued fields of \<open>ClockState\<close> that range over a fixed vocabulary are
  datatypes: \<open>profile\<close> is "study" or "worklog", \<open>mode\<close> is "focus", "break" or
  "lunch", \<open>after_micro\<close> is "" (here \<open>No_after\<close>), "resume_focus", "go_break" or
  "go_focus", and a segment kind is one of the labels \<open>_current_kind\<close> returns.
  Python integers are \<open>int\<close>; a \<open>datetime\<close> is an \<open>int\<close> (a count of clock units).
\<close>

datatype profile_t = Study | Worklog

datatype mode_t = Focus | Break | Lunch

datatype after_t = No_after | Resume_focus | Go_break | Go_focus

datatype kind_t = FOCUS | BREAK | LUNCH | SCREEN_BREAK | PAUSED | WORK | PAUSE

record LogEntry =
  entry_kind :: kind_t
  entry_start :: int
  entry_end :: int

text \<open>
  \<open>ClockState\<close>, field by field. The empty string of \<open>_segment_kind\<close> and the \<open>None\<close>
  of \<open>_segment_start\<close> are \<open>None\<close>. The last two fields are not in the dataclass: they
  are the environment that \<open>_now()\<close> reads. \<open>wall\<close> lists the values that successive
  calls of \<open>_now()\<close> return and \<open>reads\<close> counts the calls made so far.
\<close>

record ClockState =
  focus_min :: int
  break_min :: int
  micro_sec :: int
  session_goal :: int
  screen_breaks_enabled :: bool
  profile :: profile_t
  work_elapsed_sec :: int
  last_export_date :: string
  flushed_log_idx :: int
  mode :: mode_t
  remaining :: int
  completed_units :: int
  microbreak_active :: bool
  microbreak_remaining :: int
  after_micro :: after_t
  finished :: bool
  running :: bool
  pre_lunch_mode :: mode_t
  pre_lunch_remaining :: int
  pre_lunch_was_running :: bool
  reminded_this_focus :: "int set"
  remind_at :: "int set"
  total_open_sec :: int
  paused_sec :: int
  microbreak_sec :: int
  focus_work_sec :: int
  log :: "LogEntry list"
  segment_kind :: "kind_t option"
  segment_start :: "int option"
  wall :: "nat \<Rightarrow> int"
  reads :: nat

definition DEFAULT_REMIND_AT :: "int set" where
  "DEFAULT_REMIND_AT = {40 * 60, 20 * 60, 0}"

text \<open>The dataclass defaults, \<open>ClockState()\<close>, started on the clock \<open>clk\<close>.\<close>

definition default_state :: "(nat \<Rightarrow> int) \<Rightarrow> ClockState" where
  "default_state clk =
     \<lparr> focus_min = 50, break_min = 10, micro_sec = 60, session_goal = 7,
       screen_breaks_enabled = True, profile = Study, work_elapsed_sec = 0,
       last_export_date = [], flushed_log_idx = 0, mode = Focus,
       remaining = 50 * 60, completed_units = 0, microbreak_active = False,
       microbreak_remaining = 0, after_micro = No_after, finished = False,
       running = False, pre_lunch_mode = Focus, pre_lunch_remaining = 0,
       pre_lunch_was_running = False, reminded_this_focus = {},
       remind_at = DEFAULT_REMIND_AT, total_open_sec = 0, paused_sec = 0,
       microbreak_sec = 0, focus_work_sec = 0, log = [], segment_kind = None,
       segment_start = None, wall = clk, reads = 0 \<rparr>"

section \<open>Segment logging\<close>

text \<open>\<open>_now()\<close>: the next reading of the clock.\<close>

definition now :: "ClockState \<Rightarrow> int \<times> ClockState" where
  "now s = (wall s (reads s), s\<lparr>reads := Suc (reads s)\<rparr>)"

definition current_kind :: "ClockState \<Rightarrow> kind_t" where
  "current_kind s =
     (if profile s = Worklog then (if running s then WORK else PAUSE)
      else if microbreak_active s then SCREEN_BREAK
      else if \<not> running s then PAUSED
      else (case mode s of Focus \<Rightarrow> FOCUS | Break \<Rightarrow> BREAK | Lunch \<Rightarrow> LUNCH))"

text \<open>\<open>end = end or _now()\<close>: the clock is read only when no end is passed.\<close>

definition close_segment :: "int option \<Rightarrow> ClockState \<Rightarrow> ClockState" where
  "close_segment end_arg s =
     (if segment_start s = None \<or> segment_kind s = None then s
      else
        let (e, s1) = (case end_arg of Some t \<Rightarrow> (t, s) | None \<Rightarrow> now s) in
        s1\<lparr>log := log s1 @
                [\<lparr>entry_kind = the (segment_kind s1),
                  entry_start = the (segment_start s1),
                  entry_end = e\<rparr>],
           segment_kind := None,
           segment_start := None\<rparr>)"

definition open_segment :: "kind_t \<Rightarrow> int option \<Rightarrow> ClockState \<Rightarrow> ClockState" where
  "open_segment k start_arg s =
     (let s1 = s\<lparr>segment_kind := Some k\<rparr>;
          (t, s2) = (case start_arg of Some t \<Rightarrow> (t, s1) | None \<Rightarrow> now s1) in
      s2\<lparr>segment_start := Some t\<rparr>)"

definition roll_segment_if_needed :: "ClockState \<Rightarrow> ClockState" where
  "roll_segment_if_needed s =
     (let (t, s1) = now s;
          new_kind = current_kind s1 in
      if segment_start s1 = None then open_segment new_kind (Some t) s1
      else if Some new_kind \<noteq> segment_kind s1
        then open_segment new_kind (Some t) (close_segment (Some t) s1)
      else s1)"

section \<open>State transitions\<close>

text \<open>
  The callbacks \<open>_on_change\<close> and \<open>_beep\<close> redraw the window and play a sound; they
  read the state and never write it, so they leave no trace in the transitions below.
\<close>

definition mark_finished :: "ClockState \<Rightarrow> ClockState" where
  "mark_finished s =
     (if profile s = Worklog then s
      else s\<lparr>finished := True, running := False, microbreak_active := False,
             microbreak_remaining := 0, after_micro := No_after\<rparr>)"

definition switch_to_break :: "ClockState \<Rightarrow> ClockState" where
  "switch_to_break s =
     roll_segment_if_needed (s\<lparr>mode := Break, remaining := break_min s * 60\<rparr>)"

definition switch_to_focus :: "ClockState \<Rightarrow> ClockState" where
  "switch_to_focus s =
     roll_segment_if_needed
       (s\<lparr>mode := Focus, remaining := focus_min s * 60, reminded_this_focus := {}\<rparr>)"

definition start_lunch_break :: "ClockState \<Rightarrow> ClockState" where
  "start_lunch_break s =
     (if finished s then s
      else roll_segment_if_needed
        (s\<lparr>pre_lunch_mode := mode s,
           pre_lunch_remaining := remaining s,
           pre_lunch_was_running := running s,
           microbreak_active := False,
           microbreak_remaining := 0,
           after_micro := No_after,
           mode := Lunch,
           remaining := 60 * 60,
           running := True\<rparr>))"

subsection \<open>Microbreak\<close>

definition end_microbreak :: "ClockState \<Rightarrow> ClockState" where
  "end_microbreak s =
     (let s1 = s\<lparr>microbreak_active := False, microbreak_remaining := 0\<rparr>;
          s2 = (case after_micro s1 of
                  Resume_focus \<Rightarrow> s1
                | Go_break \<Rightarrow> switch_to_break s1
                | Go_focus \<Rightarrow> switch_to_focus s1
                | No_after \<Rightarrow> s1) in
      roll_segment_if_needed (s2\<lparr>after_micro := No_after\<rparr>))"

definition start_microbreak :: "after_t \<Rightarrow> ClockState \<Rightarrow> ClockState" where
  "start_microbreak after s =
     (if micro_sec s \<le> 0 \<or> \<not> screen_breaks_enabled s
        then end_microbreak (s\<lparr>after_micro := after\<rparr>)
      else roll_segment_if_needed
        (s\<lparr>microbreak_active := True,
           microbreak_remaining := micro_sec s,
           after_micro := after\<rparr>))"

subsection \<open>Completion\<close>

definition finish_focus_unit :: "bool \<Rightarrow> ClockState \<Rightarrow> ClockState" where
  "finish_focus_unit use_microbreak_before_break s =
     (let s1 = s\<lparr>completed_units := completed_units s + 1\<rparr> in
      if completed_units s1 \<ge> session_goal s1 then mark_finished s1
      else if use_microbreak_before_break then start_microbreak Go_break s1
      else switch_to_break s1)"

subsection \<open>Controls\<close>

definition start :: "ClockState \<Rightarrow> ClockState" where
  "start s =
     (if finished s then s
      else if \<not> running s then roll_segment_if_needed (s\<lparr>running := True\<rparr>)
      else s)"

definition pause :: "ClockState \<Rightarrow> ClockState" where
  "pause s = roll_segment_if_needed (s\<lparr>running := False\<rparr>)"

definition toggle_play_pause :: "ClockState \<Rightarrow> ClockState" where
  "toggle_play_pause s = (if running s then pause s else start s)"

definition reset_all :: "ClockState \<Rightarrow> ClockState" where
  "reset_all s =
     (if profile s = Worklog
        then s\<lparr>running := False, work_elapsed_sec := 0, log := [],
               segment_kind := None, segment_start := None\<rparr>
      else s\<lparr>running := False, mode := Focus, remaining := focus_min s * 60,
             completed_units := 0, finished := False,
             microbreak_active := False, microbreak_remaining := 0,
             after_micro := No_after, reminded_this_focus := {},
             total_open_sec := 0, paused_sec := 0, microbreak_sec := 0,
             focus_work_sec := 0,
             log := [], segment_kind := None, segment_start := None\<rparr>)"

definition skip_phase :: "ClockState \<Rightarrow> ClockState" where
  "skip_phase s =
     (if profile s = Worklog then s
      else if finished s then s
      else if microbreak_active s then end_microbreak s
      else if mode s = Focus then finish_focus_unit False s
      else switch_to_focus s)"

definition THRESHOLD_SEC :: int where
  "THRESHOLD_SEC = 10"

text \<open>The local helper of \<open>rewind_phase\<close>.\<close>

definition elapsed_in_phase :: "ClockState \<Rightarrow> int \<Rightarrow> int" where
  "elapsed_in_phase s total_sec = max 0 (total_sec - remaining s)"

definition rewind_phase :: "ClockState \<Rightarrow> ClockState" where
  "rewind_phase s =
     (if profile s = Worklog then s
      else if finished s then s
      else if microbreak_active s
        then s\<lparr>microbreak_active := False, microbreak_remaining := 0,
               after_micro := No_after\<rparr>
      else (case mode s of
          Focus \<Rightarrow>
            (let total = focus_min s * 60;
                 elapsed = elapsed_in_phase s total in
             if elapsed > THRESHOLD_SEC then s\<lparr>remaining := total\<rparr>
             else if completed_units s = 0 then s\<lparr>remaining := total\<rparr>
             else switch_to_break (s\<lparr>completed_units := completed_units s - 1\<rparr>))
        | Break \<Rightarrow>
            (let total = break_min s * 60;
                 elapsed = elapsed_in_phase s total in
             if elapsed > THRESHOLD_SEC then s\<lparr>remaining := total\<rparr>
             else switch_to_focus s)
        | Lunch \<Rightarrow>
            (let total = 60 * 60;
                 elapsed = elapsed_in_phase s total in
             if elapsed > THRESHOLD_SEC then s\<lparr>remaining := total\<rparr>
             else s\<lparr>mode := pre_lunch_mode s,
                    remaining := pre_lunch_remaining s,
                    running := pre_lunch_was_running s\<rparr>)))"

subsection \<open>Tick handlers\<close>

text \<open>
  The tail of \<open>on_tick\<close>, from the comment "Phase end without reminder branch" on. Both
  the path that skips the reminder branch and the path that falls out of it end here.
\<close>

definition on_tick_phase_end :: "ClockState \<Rightarrow> ClockState" where
  "on_tick_phase_end s =
     (if remaining s \<le> 0 then
        (if mode s = Focus then finish_focus_unit True s
         else if mode s = Lunch
           then s\<lparr>mode := pre_lunch_mode s,
                  remaining := pre_lunch_remaining s,
                  running := pre_lunch_was_running s\<rparr>
         else switch_to_focus s)
      else s)"

definition on_tick :: "ClockState \<Rightarrow> ClockState" where
  "on_tick s =
     (if finished s \<or> (\<not> running s \<and> profile s = Study) then s
      else
        let s1 = roll_segment_if_needed s in
        if profile s1 = Worklog then
          (if running s1
             then s1\<lparr>total_open_sec := total_open_sec s1 + 1,
                     focus_work_sec := focus_work_sec s1 + 1,
                     work_elapsed_sec := work_elapsed_sec s1 + 1\<rparr>
           else s1)
        else
          let s2 = s1\<lparr>total_open_sec := total_open_sec s1 + 1\<rparr> in
          if microbreak_active s2 then
            (let s3 = s2\<lparr>microbreak_sec := microbreak_sec s2 + 1,
                         microbreak_remaining := microbreak_remaining s2 - 1\<rparr> in
             if microbreak_remaining s3 \<le> 0 then end_microbreak s3 else s3)
          else
            let s3 = (if mode s2 = Focus
                        then s2\<lparr>focus_work_sec := focus_work_sec s2 + 1\<rparr> else s2);
                s4 = s3\<lparr>remaining := remaining s3 - 1\<rparr> in
            if mode s4 = Focus \<and> remaining s4 \<in> remind_at s4
                \<and> remaining s4 \<notin> reminded_this_focus s4
            then
              (let s5 = s4\<lparr>reminded_this_focus :=
                             insert (remaining s4) (reminded_this_focus s4)\<rparr> in
               if remaining s5 = 40 * 60 \<or> remaining s5 = 20 * 60
                 then start_microbreak Resume_focus s5
               else if remaining s5 = 0 then finish_focus_unit True s5
               else on_tick_phase_end s5)
            else on_tick_phase_end s4)"

definition on_pause_count_tick :: "ClockState \<Rightarrow> ClockState" where
  "on_pause_count_tick s =
     (if \<not> running s \<and> \<not> microbreak_active s \<and> \<not> finished s
        then s\<lparr>paused_sec := paused_sec s + 1\<rparr>
      else s)"

subsection \<open>Settings\<close>

definition apply_settings ::
  "int \<Rightarrow> int \<Rightarrow> int \<Rightarrow> int \<Rightarrow> int \<Rightarrow> bool \<Rightarrow> ClockState \<Rightarrow> ClockState" where
  "apply_settings fm bm ms goal start_unit sbe s =
     (let s1 = s\<lparr>focus_min := fm, break_min := bm, micro_sec := ms,
                 session_goal := goal, screen_breaks_enabled := sbe\<rparr>;
          start_unit' = max 1 (min start_unit (session_goal s1));
          s2 = s1\<lparr>completed_units := start_unit' - 1, finished := False\<rparr> in
      if \<not> running s2 \<and> \<not> microbreak_active s2
        then s2\<lparr>remaining := (if mode s2 = Focus then focus_min s2 * 60
                                else break_min s2 * 60)\<rparr>
      else s2)"

section \<open>Runs of the public operations\<close>

datatype event =
    OnTick | OnPauseTick | Start | Pause | SkipPhase | RewindPhase | ResetAll
  | ApplySettings int int int int int bool
  | StartLunchBreak

fun step :: "event \<Rightarrow> ClockState \<Rightarrow> ClockState" where
  "step OnTick s = on_tick s"
| "step OnPauseTick s = on_pause_count_tick s"
| "step Start s = start s"
| "step Pause s = pause s"
| "step SkipPhase s = skip_phase s"
| "step RewindPhase s = rewind_phase s"
| "step ResetAll s = reset_all s"
| "step (ApplySettings fm bm ms goal start_unit sbe) s =
     apply_settings fm bm ms goal start_unit sbe s"
| "step StartLunchBreak s = start_lunch_break s"

fun run :: "ClockState \<Rightarrow> event list \<Rightarrow> ClockState" where
  "run s [] = s"
| "run s (e # es) = run (step e s) es"


section \<open>The window's own writes to the state\<close>

text \<open>
  \<open>window.py\<close> owns the engine and, next to calling the public operations, writes to the
  state itself in three methods. What they do besides (timers, dialogs, the CSV file) is
  left out. \<open>xs[i:]\<close> of Python is \<open>slice_from i xs\<close>.
\<close>

definition slice_from :: "int \<Rightarrow> 'a list \<Rightarrow> 'a list" where
  "slice_from i xs =
     (if 0 \<le> i then drop (nat i) xs else drop (length xs - nat (- i)) xs)"

definition toggle_profile :: "ClockState \<Rightarrow> ClockState" where
  "toggle_profile s0 =
     (let s = close_segment None s0 in
      if profile s = Study
        then s\<lparr>profile := Worklog, finished := False, microbreak_active := False,
               microbreak_remaining := 0, after_micro := No_after,
               work_elapsed_sec := 0, running := False\<rparr>
      else s\<lparr>profile := Study, mode := Focus, remaining := focus_min s * 60,
             running := False\<rparr>)"

definition flush_worklog_to_csv :: "ClockState \<Rightarrow> ClockState" where
  "flush_worklog_to_csv s0 =
     (let s = close_segment None (roll_segment_if_needed s0);
          entries = slice_from (flushed_log_idx s) (log s) in
      if entries = [] then s
      else s\<lparr>flushed_log_idx := int (length (log s))\<rparr>)"

definition export_to_csv :: "ClockState \<Rightarrow> ClockState" where
  "export_to_csv s =
     (if profile s = Worklog then flush_worklog_to_csv s
      else close_segment None s)"

text \<open>What the window can do to the state: a public operation of the engine or one of
  its own three methods.\<close>

datatype window_event = Engine event | ToggleProfile | ExportToCsv | FlushWorklogToCsv

fun window_step :: "window_event \<Rightarrow> ClockState \<Rightarrow> ClockState" where
  "window_step (Engine e) s = step e s"
| "window_step ToggleProfile s = toggle_profile s"
| "window_step ExportToCsv s = export_to_csv s"
| "window_step FlushWorklogToCsv s = flush_worklog_to_csv s"

fun window_run :: "ClockState \<Rightarrow> window_event list \<Rightarrow> ClockState" where
  "window_run s [] = s"
| "window_run s (w # ws) = window_run (window_step w s) ws"

section \<open>Invariants\<close>


text \<open>Each entry of the list ends where the next one starts.\<close>

fun gap_free :: "LogEntry list \<Rightarrow> bool" where
  "gap_free [] = True"
| "gap_free [a] = True"
| "gap_free (a # b # xs) = (entry_end a = entry_start b \<and> gap_free (b # xs))"

text \<open>No entry of the list ends after the next one starts.\<close>

fun no_overlap :: "LogEntry list \<Rightarrow> bool" where
  "no_overlap [] = True"
| "no_overlap [a] = True"
| "no_overlap (a # b # xs) = (entry_end a \<le> entry_start b \<and> no_overlap (b # xs))"

text \<open>
  The segment log on the clock \<open>clk\<close>. A segment is open exactly when it has a kind. As
  long as segments are closed by rolling only (\<open>direct\<close> is false), the log has no gaps
  and a non-empty log is continued by the open segment. On a clock that never runs
  backwards, also when the window closes segments directly, no entry ends before it
  starts, the entries do not overlap, and the last entry and the open segment lie before
  the next reading, in this order.
\<close>

definition log_inv :: "bool \<Rightarrow> (nat \<Rightarrow> int) \<Rightarrow> ClockState \<Rightarrow> bool" where
  "log_inv direct clk s \<longleftrightarrow>
     wall s = clk
   \<and> (segment_start s = None \<longleftrightarrow> segment_kind s = None)
   \<and> (\<not> direct \<longrightarrow>
        gap_free (log s)
      \<and> (log s \<noteq> [] \<longrightarrow> segment_start s = Some (entry_end (last (log s)))))
   \<and> (mono (wall s) \<longrightarrow>
        no_overlap (log s)
      \<and> (\<forall>e\<in>set (log s). entry_start e \<le> entry_end e)
      \<and> (log s \<noteq> [] \<longrightarrow> entry_end (last (log s)) \<le> wall s (reads s))
      \<and> (\<forall>t. segment_start s = Some t \<longrightarrow>
             t \<le> wall s (reads s)
           \<and> (log s \<noteq> [] \<longrightarrow> entry_end (last (log s)) \<le> t)))"

section \<open>Concrete states\<close>

text \<open>
  States the theorems are evaluated at, all on the clock whose \<open>n\<close>-th reading is \<open>n\<close>:
  lunch paused by the user; the last second of the last focus unit; a focus phase of the
  fourth unit five and fifteen seconds in; a focus phase of the first unit five seconds in;
  a running microbreak; screen breaks switched off; a microbreak length of zero; a paused
  focus phase after the first threshold has fired; and a running focus phase one second
  before a threshold that has fired already.
\<close>

text \<open>
  A clock that is set back after its first reading, as local time is at the end of daylight
  saving time: the first reading is 9000, the \<open>n\<close>-th reading after it is \<open>n\<close>.
\<close>

definition set_back_clock :: "nat \<Rightarrow> int" where
  "set_back_clock n = (if n = 0 then 9000 else int n)"

definition paused_lunch :: ClockState where
  "paused_lunch = pause (start_lunch_break (default_state int))"

definition last_unit :: ClockState where
  "last_unit = (default_state int)\<lparr>remaining := 1, completed_units := 6, running := True\<rparr>"

definition near_start :: ClockState where
  "near_start = (default_state int)\<lparr>remaining := 50 * 60 - 5, completed_units := 3\<rparr>"

definition past_threshold :: ClockState where
  "past_threshold = (default_state int)\<lparr>remaining := 50 * 60 - 15, completed_units := 3\<rparr>"

definition first_unit :: ClockState where
  "first_unit = (default_state int)\<lparr>remaining := 50 * 60 - 5\<rparr>"

definition in_microbreak :: ClockState where
  "in_microbreak =
     (default_state int)\<lparr>remaining := 2400, microbreak_active := True,
       microbreak_remaining := 60, after_micro := Resume_focus, running := True\<rparr>"

definition breaks_off :: ClockState where
  "breaks_off = (default_state int)\<lparr>screen_breaks_enabled := False\<rparr>"

definition zero_micro :: ClockState where
  "zero_micro = (default_state int)\<lparr>micro_sec := 0, remaining := 2400\<rparr>"

definition fired_paused :: ClockState where
  "fired_paused =
     (default_state int)\<lparr>remaining := 2000, reminded_this_focus := {2400}\<rparr>"

definition already_reminded :: ClockState where
  "already_reminded =
     (default_state int)\<lparr>remaining := 2401, running := True,
       reminded_this_focus := {2400}\<rparr>"

text \<open>
  A session of one unit of one minute, run to its end from the default state, so that the
  threshold 0 has fired; the same state after the goal was raised to two units and the
  minute was run again; and the last second of a focus phase with every threshold fired.
\<close>

definition zero_fired :: ClockState where
  "zero_fired =
     (on_tick ^^ 60) (start (apply_settings 1 1 60 1 1 False (default_state int)))"

definition zero_refired :: ClockState where
  "zero_refired = (on_tick ^^ 60) (start (apply_settings 1 1 60 2 1 False zero_fired))"

definition zero_reminded :: ClockState where
  "zero_reminded =
     (default_state int)\<lparr>remaining := 1, running := True,
       reminded_this_focus := {2400, 1200, 0}\<rparr>"

section \<open>What a transition leaves alone\<close>

text \<open>Rolling the segment touches the log, the open segment and the clock only.\<close>

lemma roll_frame:
  "focus_min (roll_segment_if_needed s) = focus_min s"
  "break_min (roll_segment_if_needed s) = break_min s"
  "micro_sec (roll_segment_if_needed s) = micro_sec s"
  "session_goal (roll_segment_if_needed s) = session_goal s"
  "screen_breaks_enabled (roll_segment_if_needed s) = screen_breaks_enabled s"
  "profile (roll_segment_if_needed s) = profile s"
  "work_elapsed_sec (roll_segment_if_needed s) = work_elapsed_sec s"
  "mode (roll_segment_if_needed s) = mode s"
  "remaining (roll_segment_if_needed s) = remaining s"
  "completed_units (roll_segment_if_needed s) = completed_units s"
  "microbreak_active (roll_segment_if_needed s) = microbreak_active s"
  "microbreak_remaining (roll_segment_if_needed s) = microbreak_remaining s"
  "after_micro (roll_segment_if_needed s) = after_micro s"
  "finished (roll_segment_if_needed s) = finished s"
  "running (roll_segment_if_needed s) = running s"
  "pre_lunch_mode (roll_segment_if_needed s) = pre_lunch_mode s"
  "pre_lunch_remaining (roll_segment_if_needed s) = pre_lunch_remaining s"
  "pre_lunch_was_running (roll_segment_if_needed s) = pre_lunch_was_running s"
  "reminded_this_focus (roll_segment_if_needed s) = reminded_this_focus s"
  "remind_at (roll_segment_if_needed s) = remind_at s"
  "total_open_sec (roll_segment_if_needed s) = total_open_sec s"
  "paused_sec (roll_segment_if_needed s) = paused_sec s"
  "microbreak_sec (roll_segment_if_needed s) = microbreak_sec s"
  "focus_work_sec (roll_segment_if_needed s) = focus_work_sec s"
  "wall (roll_segment_if_needed s) = wall s"
  by (simp_all add: roll_segment_if_needed_def now_def open_segment_def close_segment_def
        Let_def)

lemma switch_frame:
  "mode (switch_to_break s) = Break"
  "remaining (switch_to_break s) = break_min s * 60"
  "completed_units (switch_to_break s) = completed_units s"
  "profile (switch_to_break s) = profile s"
  "session_goal (switch_to_break s) = session_goal s"
  "finished (switch_to_break s) = finished s"
  "running (switch_to_break s) = running s"
  "profile (switch_to_focus s) = profile s"
  "session_goal (switch_to_focus s) = session_goal s"
  "finished (switch_to_focus s) = finished s"
  "running (switch_to_focus s) = running s"
  "completed_units (switch_to_focus s) = completed_units s"
  by (simp_all add: switch_to_break_def switch_to_focus_def roll_frame)

section \<open>The unit counter is preserved\<close>












section \<open>The segment log is preserved\<close>

lemma gap_free_snoc:
  "gap_free (l @ [e]) = (gap_free l \<and> (l \<noteq> [] \<longrightarrow> entry_end (last l) = entry_start e))"
  by (induction l rule: gap_free.induct) auto

lemma gap_free_nth:
  "gap_free l \<Longrightarrow> Suc i < length l \<Longrightarrow> entry_end (l ! i) = entry_start (l ! Suc i)"
proof (induction l arbitrary: i rule: gap_free.induct)
  case (3 a b xs)
  then show ?case by (cases i) simp_all
qed simp_all

lemma no_overlap_snoc:
  "no_overlap (l @ [e]) = (no_overlap l \<and> (l \<noteq> [] \<longrightarrow> entry_end (last l) \<le> entry_start e))"
  by (induction l rule: no_overlap.induct) auto

lemma no_overlap_nth:
  "no_overlap l \<Longrightarrow> Suc i < length l \<Longrightarrow> entry_end (l ! i) \<le> entry_start (l ! Suc i)"
proof (induction l arbitrary: i rule: no_overlap.induct)
  case (3 a b xs)
  then show ?case by (cases i) simp_all
qed simp_all

lemma mono_step: "mono (f :: nat \<Rightarrow> int) \<Longrightarrow> t \<le> f n \<Longrightarrow> t \<le> f (Suc n)"
  by (meson le_SucI monoD order_refl order_trans)

lemma log_inv_roll: "log_inv d clk s \<Longrightarrow> log_inv d clk (roll_segment_if_needed s)"
  by (auto simp add: log_inv_def roll_segment_if_needed_def now_def open_segment_def
        close_segment_def Let_def gap_free_snoc no_overlap_snoc mono_step)

lemma log_inv_close: "log_inv True clk s \<Longrightarrow> log_inv True clk (close_segment None s)"
  by (auto simp add: log_inv_def now_def close_segment_def Let_def no_overlap_snoc mono_step)

lemma log_inv_upd:
  "log_inv d clk (focus_min_update f0 s) = log_inv d clk s"
  "log_inv d clk (break_min_update f1 s) = log_inv d clk s"
  "log_inv d clk (micro_sec_update f2 s) = log_inv d clk s"
  "log_inv d clk (session_goal_update f3 s) = log_inv d clk s"
  "log_inv d clk (screen_breaks_enabled_update f4 s) = log_inv d clk s"
  "log_inv d clk (work_elapsed_sec_update f5 s) = log_inv d clk s"
  "log_inv d clk (mode_update f6 s) = log_inv d clk s"
  "log_inv d clk (remaining_update f7 s) = log_inv d clk s"
  "log_inv d clk (completed_units_update f8 s) = log_inv d clk s"
  "log_inv d clk (microbreak_active_update f9 s) = log_inv d clk s"
  "log_inv d clk (microbreak_remaining_update f10 s) = log_inv d clk s"
  "log_inv d clk (after_micro_update f11 s) = log_inv d clk s"
  "log_inv d clk (finished_update f12 s) = log_inv d clk s"
  "log_inv d clk (running_update f13 s) = log_inv d clk s"
  "log_inv d clk (pre_lunch_mode_update f14 s) = log_inv d clk s"
  "log_inv d clk (pre_lunch_remaining_update f15 s) = log_inv d clk s"
  "log_inv d clk (pre_lunch_was_running_update f16 s) = log_inv d clk s"
  "log_inv d clk (reminded_this_focus_update f17 s) = log_inv d clk s"
  "log_inv d clk (total_open_sec_update f18 s) = log_inv d clk s"
  "log_inv d clk (paused_sec_update f19 s) = log_inv d clk s"
  "log_inv d clk (microbreak_sec_update f20 s) = log_inv d clk s"
  "log_inv d clk (focus_work_sec_update f21 s) = log_inv d clk s"
  "log_inv d clk (profile_update f22 s) = log_inv d clk s"
  "log_inv d clk (flushed_log_idx_update f23 s) = log_inv d clk s"
  by (simp_all add: log_inv_def)

lemma log_inv_switch:
  "log_inv d clk s \<Longrightarrow> log_inv d clk (switch_to_break s)"
  "log_inv d clk s \<Longrightarrow> log_inv d clk (switch_to_focus s)"
  by (simp_all add: switch_to_break_def switch_to_focus_def log_inv_roll log_inv_upd)

lemma log_inv_end_microbreak: "log_inv d clk s \<Longrightarrow> log_inv d clk (end_microbreak s)"
  by (cases "after_micro s")
     (simp_all add: end_microbreak_def Let_def log_inv_roll log_inv_upd log_inv_switch)

lemma log_inv_start_microbreak: "log_inv d clk s \<Longrightarrow> log_inv d clk (start_microbreak a s)"
  by (simp add: start_microbreak_def log_inv_end_microbreak log_inv_roll log_inv_upd)

lemma log_inv_finish: "log_inv d clk s \<Longrightarrow> log_inv d clk (finish_focus_unit b s)"
  by (simp add: finish_focus_unit_def Let_def mark_finished_def log_inv_start_microbreak
        log_inv_switch log_inv_upd)

lemma log_inv_phase_end: "log_inv d clk s \<Longrightarrow> log_inv d clk (on_tick_phase_end s)"
  by (simp add: on_tick_phase_end_def log_inv_finish log_inv_switch log_inv_upd)

lemma log_inv_on_tick: "log_inv d clk s \<Longrightarrow> log_inv d clk (on_tick s)"
  by (simp add: on_tick_def Let_def log_inv_roll log_inv_upd log_inv_end_microbreak
        log_inv_start_microbreak log_inv_finish log_inv_phase_end)

lemma log_inv_step: "log_inv d clk s \<Longrightarrow> log_inv d clk (step e s)"
proof (cases e)
  case OnTick
  assume "log_inv d clk s"
  then show ?thesis using OnTick by (simp add: log_inv_on_tick)
next
  case OnPauseTick
  assume "log_inv d clk s"
  then show ?thesis using OnPauseTick
    by (simp add: on_pause_count_tick_def log_inv_upd)
next
  case Start
  assume "log_inv d clk s"
  then show ?thesis using Start
    by (simp add: start_def log_inv_roll log_inv_upd)
next
  case Pause
  assume "log_inv d clk s"
  then show ?thesis using Pause
    by (simp add: pause_def log_inv_roll log_inv_upd)
next
  case SkipPhase
  assume "log_inv d clk s"
  then show ?thesis using SkipPhase
    by (simp add: skip_phase_def log_inv_end_microbreak log_inv_finish log_inv_switch)
next
  case RewindPhase
  assume "log_inv d clk s"
  then show ?thesis using RewindPhase
    by (cases "mode s")
       (simp_all add: rewind_phase_def Let_def log_inv_switch log_inv_upd)
next
  case ResetAll
  assume "log_inv d clk s"
  then show ?thesis using ResetAll
    by (simp add: reset_all_def log_inv_def)
next
  case (ApplySettings fm bm ms goal su sbe)
  assume "log_inv d clk s"
  then show ?thesis using ApplySettings
    by (simp add: apply_settings_def Let_def log_inv_upd)
next
  case StartLunchBreak
  assume "log_inv d clk s"
  then show ?thesis using StartLunchBreak
    by (simp add: start_lunch_break_def log_inv_roll log_inv_upd)
qed

lemma log_inv_run: "log_inv d clk s \<Longrightarrow> log_inv d clk (run s es)"
  by (induction es arbitrary: s) (simp_all add: log_inv_step)

lemma log_inv_initial:
  "log s = [] \<Longrightarrow> segment_start s = None \<Longrightarrow> segment_kind s = None
    \<Longrightarrow> log_inv d (wall s) s"
  by (simp add: log_inv_def)

lemma log_inv_toggle_profile: "log_inv True clk s \<Longrightarrow> log_inv True clk (toggle_profile s)"
  by (simp add: toggle_profile_def Let_def log_inv_close log_inv_upd)

lemma log_inv_flush:
  "log_inv True clk s \<Longrightarrow> log_inv True clk (flush_worklog_to_csv s)"
  by (simp add: flush_worklog_to_csv_def Let_def log_inv_close log_inv_roll log_inv_upd)

lemma log_inv_export: "log_inv True clk s \<Longrightarrow> log_inv True clk (export_to_csv s)"
  by (simp add: export_to_csv_def log_inv_close log_inv_flush)

lemma log_inv_window_step:
  "log_inv True clk s \<Longrightarrow> log_inv True clk (window_step w s)"
  by (cases w)
     (simp_all add: log_inv_step log_inv_toggle_profile log_inv_export log_inv_flush)

lemma log_inv_window_run:
  "log_inv True clk s \<Longrightarrow> log_inv True clk (window_run s ws)"
  by (induction ws arbitrary: s) (simp_all add: log_inv_window_step)

section \<open>Lunch runs down to the snapshot\<close>

lemma on_tick_lunch_step:
  assumes "profile s = Study" "\<not> finished s" "running s" "\<not> microbreak_active s"
    "mode s = Lunch" "remaining s > 1"
  shows "profile (on_tick s) = Study \<and> \<not> finished (on_tick s) \<and> running (on_tick s)
       \<and> \<not> microbreak_active (on_tick s) \<and> mode (on_tick s) = Lunch
       \<and> remaining (on_tick s) = remaining s - 1
       \<and> pre_lunch_mode (on_tick s) = pre_lunch_mode s
       \<and> pre_lunch_remaining (on_tick s) = pre_lunch_remaining s
       \<and> pre_lunch_was_running (on_tick s) = pre_lunch_was_running s
       \<and> completed_units (on_tick s) = completed_units s"
  using assms by (simp add: on_tick_def on_tick_phase_end_def Let_def roll_frame)

lemma on_tick_lunch_end:
  assumes "profile s = Study" "\<not> finished s" "running s" "\<not> microbreak_active s"
    "mode s = Lunch" "remaining s = 1"
  shows "mode (on_tick s) = pre_lunch_mode s
       \<and> remaining (on_tick s) = pre_lunch_remaining s
       \<and> running (on_tick s) = pre_lunch_was_running s
       \<and> completed_units (on_tick s) = completed_units s"
  using assms by (simp add: on_tick_def on_tick_phase_end_def Let_def roll_frame)

lemma lunch_countdown:
  assumes "profile s = Study" "\<not> finished s" "running s" "\<not> microbreak_active s"
    "mode s = Lunch"
  shows "int k < remaining s \<Longrightarrow>
     profile ((on_tick ^^ k) s) = Study \<and> \<not> finished ((on_tick ^^ k) s)
   \<and> running ((on_tick ^^ k) s) \<and> \<not> microbreak_active ((on_tick ^^ k) s)
   \<and> mode ((on_tick ^^ k) s) = Lunch
   \<and> remaining ((on_tick ^^ k) s) = remaining s - int k
   \<and> pre_lunch_mode ((on_tick ^^ k) s) = pre_lunch_mode s
   \<and> pre_lunch_remaining ((on_tick ^^ k) s) = pre_lunch_remaining s
   \<and> pre_lunch_was_running ((on_tick ^^ k) s) = pre_lunch_was_running s
   \<and> completed_units ((on_tick ^^ k) s) = completed_units s"
proof (induction k)
  case 0
  show ?case using assms by simp
next
  case (Suc k)
  then have ih: "profile ((on_tick ^^ k) s) = Study" "\<not> finished ((on_tick ^^ k) s)"
    "running ((on_tick ^^ k) s)" "\<not> microbreak_active ((on_tick ^^ k) s)"
    "mode ((on_tick ^^ k) s) = Lunch" "remaining ((on_tick ^^ k) s) = remaining s - int k"
    "pre_lunch_mode ((on_tick ^^ k) s) = pre_lunch_mode s"
    "pre_lunch_remaining ((on_tick ^^ k) s) = pre_lunch_remaining s"
    "pre_lunch_was_running ((on_tick ^^ k) s) = pre_lunch_was_running s"
    "completed_units ((on_tick ^^ k) s) = completed_units s"
    by simp_all
  from Suc.prems ih(6) have "remaining ((on_tick ^^ k) s) > 1" by simp
  from on_tick_lunch_step [OF ih(1-5) this] ih(6-10)
  show ?case by simp
qed

lemma lunch_expiry:
  assumes "profile s = Study" "\<not> finished s" "running s" "\<not> microbreak_active s"
    "mode s = Lunch" "remaining s = int (Suc k)"
  shows "mode ((on_tick ^^ Suc k) s) = pre_lunch_mode s
       \<and> remaining ((on_tick ^^ Suc k) s) = pre_lunch_remaining s
       \<and> running ((on_tick ^^ Suc k) s) = pre_lunch_was_running s
       \<and> completed_units ((on_tick ^^ Suc k) s) = completed_units s"
proof -
  have "int k < remaining s" using assms(6) by simp
  from lunch_countdown [OF assms(1-5) this]
  have c: "profile ((on_tick ^^ k) s) = Study" "\<not> finished ((on_tick ^^ k) s)"
    "running ((on_tick ^^ k) s)" "\<not> microbreak_active ((on_tick ^^ k) s)"
    "mode ((on_tick ^^ k) s) = Lunch" "remaining ((on_tick ^^ k) s) = remaining s - int k"
    "pre_lunch_mode ((on_tick ^^ k) s) = pre_lunch_mode s"
    "pre_lunch_remaining ((on_tick ^^ k) s) = pre_lunch_remaining s"
    "pre_lunch_was_running ((on_tick ^^ k) s) = pre_lunch_was_running s"
    "completed_units ((on_tick ^^ k) s) = completed_units s"
    by simp_all
  have "remaining ((on_tick ^^ k) s) = 1" using c(6) assms(6) by simp
  from on_tick_lunch_end [OF c(1-5) this] c(7-10)
  show ?thesis by simp
qed

lemma worklog_ticks:
  assumes "profile s = Worklog"
  shows "profile ((on_tick ^^ k) s) = Worklog
       \<and> mode ((on_tick ^^ k) s) = mode s
       \<and> remaining ((on_tick ^^ k) s) = remaining s
       \<and> completed_units ((on_tick ^^ k) s) = completed_units s"
proof (induction k)
  case 0
  show ?case using assms by simp
next
  case (Suc k)
  then show ?case by (simp add: on_tick_def Let_def roll_frame)
qed

lemma start_lunch_break_fields:
  assumes "\<not> finished s"
  shows "pre_lunch_mode (start_lunch_break s) = mode s"
    "pre_lunch_remaining (start_lunch_break s) = remaining s"
    "pre_lunch_was_running (start_lunch_break s) = running s"
    "\<not> microbreak_active (start_lunch_break s)"
    "microbreak_remaining (start_lunch_break s) = 0"
    "after_micro (start_lunch_break s) = No_after"
    "mode (start_lunch_break s) = Lunch"
    "remaining (start_lunch_break s) = 3600"
    "running (start_lunch_break s)"
    "\<not> finished (start_lunch_break s)"
    "profile (start_lunch_break s) = profile s"
    "completed_units (start_lunch_break s) = completed_units s"
  using assms by (simp_all add: start_lunch_break_def roll_frame)

section \<open>The reminder set\<close>

text \<open>The two one-minute sessions, evaluated tick by tick.\<close>

lemmas tick_eval = start_def apply_settings_def on_tick_def
  on_tick_phase_end_def finish_focus_unit_def mark_finished_def start_microbreak_def
  end_microbreak_def switch_to_break_def roll_segment_if_needed_def now_def current_kind_def
  open_segment_def close_segment_def Let_def

lemma zero_fired_value:
  "zero_fired =
     \<lparr> focus_min = 1, break_min = 1, micro_sec = 60, session_goal = 1,
       screen_breaks_enabled = False, profile = Study, work_elapsed_sec = 0,
       last_export_date = [], flushed_log_idx = 0, mode = Focus,
       remaining = 0, completed_units = 1, microbreak_active = False,
       microbreak_remaining = 0, after_micro = No_after, finished = True,
       running = False, pre_lunch_mode = Focus, pre_lunch_remaining = 0,
       pre_lunch_was_running = False, reminded_this_focus = {0},
       remind_at = {2400, 1200, 0}, total_open_sec = 60, paused_sec = 0,
       microbreak_sec = 0, focus_work_sec = 60, log = [], segment_kind = Some FOCUS,
       segment_start = Some 0, wall = int, reads = 61 \<rparr>"
  by (simp add: zero_fired_def default_state_def DEFAULT_REMIND_AT_def eval_nat_numeral
        tick_eval)

lemma zero_refired_value:
  "zero_refired =
     \<lparr> focus_min = 1, break_min = 1, micro_sec = 60, session_goal = 2,
       screen_breaks_enabled = False, profile = Study, work_elapsed_sec = 0,
       last_export_date = [], flushed_log_idx = 0, mode = Break,
       remaining = 60, completed_units = 1, microbreak_active = False,
       microbreak_remaining = 0, after_micro = No_after, finished = False,
       running = True, pre_lunch_mode = Focus, pre_lunch_remaining = 0,
       pre_lunch_was_running = False, reminded_this_focus = {0},
       remind_at = {2400, 1200, 0}, total_open_sec = 120, paused_sec = 0,
       microbreak_sec = 0, focus_work_sec = 120,
       log = [\<lparr>entry_kind = FOCUS, entry_start = 0, entry_end = 122\<rparr>],
       segment_kind = Some BREAK, segment_start = Some 122, wall = int, reads = 124 \<rparr>"
  unfolding zero_refired_def zero_fired_value
  by (simp add: eval_nat_numeral tick_eval)

text \<open>
  A transition either empties the reminder set or keeps every threshold that is in it.
\<close>

lemma reminded_frame:
  "reminded_this_focus (switch_to_break s) = reminded_this_focus s"
  "reminded_this_focus (switch_to_focus s) = {}"
  "reminded_this_focus (mark_finished s) = reminded_this_focus s"
  by (simp_all add: switch_to_break_def switch_to_focus_def mark_finished_def roll_frame)

lemma reminded_end_microbreak:
  "R \<subseteq> reminded_this_focus s \<Longrightarrow>
     reminded_this_focus (end_microbreak s) = {} \<or> R \<subseteq> reminded_this_focus (end_microbreak s)"
  by (cases "after_micro s")
     (simp_all add: end_microbreak_def Let_def roll_frame reminded_frame)

lemma reminded_start_microbreak:
  "R \<subseteq> reminded_this_focus s \<Longrightarrow>
     reminded_this_focus (start_microbreak a s) = {}
     \<or> R \<subseteq> reminded_this_focus (start_microbreak a s)"
  by (simp add: start_microbreak_def reminded_end_microbreak roll_frame)

lemma finish_focus_unit_counts:
  "completed_units (finish_focus_unit b s) = completed_units s + 1"
  "reminded_this_focus (finish_focus_unit b s) = reminded_this_focus s"
  by (simp_all add: finish_focus_unit_def Let_def mark_finished_def start_microbreak_def
        end_microbreak_def switch_frame reminded_frame roll_frame)

lemma reminded_phase_end:
  "R \<subseteq> reminded_this_focus s \<Longrightarrow>
     reminded_this_focus (on_tick_phase_end s) = {}
     \<or> R \<subseteq> reminded_this_focus (on_tick_phase_end s)"
  by (simp add: on_tick_phase_end_def finish_focus_unit_counts reminded_frame)

lemma reminded_on_tick:
  "reminded_this_focus (on_tick s) = {}
   \<or> reminded_this_focus s \<subseteq> reminded_this_focus (on_tick s)"
  by (simp add: on_tick_def Let_def roll_frame finish_focus_unit_counts
        reminded_end_microbreak reminded_start_microbreak reminded_phase_end subset_insertI)

lemma reminded_rewind:
  "reminded_this_focus (rewind_phase s) = {}
   \<or> reminded_this_focus s \<subseteq> reminded_this_focus (rewind_phase s)"
  by (cases "mode s")
     (simp_all add: rewind_phase_def Let_def reminded_frame)

lemma reminded_step:
  "reminded_this_focus (step e s) = {}
   \<or> reminded_this_focus s \<subseteq> reminded_this_focus (step e s)"
proof (cases e)
  case OnTick
  then show ?thesis using reminded_on_tick [of s] by simp
next
  case SkipPhase
  then show ?thesis
    by (simp add: skip_phase_def finish_focus_unit_counts reminded_frame
          reminded_end_microbreak)
next
  case RewindPhase
  then show ?thesis using reminded_rewind [of s] by simp
next
  case ResetAll
  then show ?thesis by (simp add: reset_all_def)
next
  case (ApplySettings fm bm ms goal su sbe)
  then show ?thesis by (simp add: apply_settings_def Let_def)
qed (simp_all add: on_pause_count_tick_def start_def pause_def start_lunch_break_def
      roll_frame)

lemma on_tick_last_second:
  "profile s = Study \<Longrightarrow> running s \<Longrightarrow> \<not> finished s \<Longrightarrow> \<not> microbreak_active s
    \<Longrightarrow> mode s = Focus \<Longrightarrow> remaining s = 1
    \<Longrightarrow> completed_units (on_tick s) = completed_units s + 1"
  by (simp add: on_tick_def on_tick_phase_end_def Let_def roll_frame finish_focus_unit_counts)

lemma on_tick_reminded_already:
  "profile s = Study \<Longrightarrow> running s \<Longrightarrow> \<not> finished s \<Longrightarrow> \<not> microbreak_active s
    \<Longrightarrow> mode s = Focus \<Longrightarrow> remaining s - 1 \<in> reminded_this_focus s
    \<Longrightarrow> remaining s - 1 > 0
    \<Longrightarrow> \<not> microbreak_active (on_tick s)
      \<and> reminded_this_focus (on_tick s) = reminded_this_focus s
      \<and> remaining (on_tick s) = remaining s - 1
      \<and> mode (on_tick s) = Focus"
  by (simp add: on_tick_def on_tick_phase_end_def Let_def roll_frame)

lemma apply_settings_frame:
  "reminded_this_focus (apply_settings fm bm ms goal su sbe s) = reminded_this_focus s"
  "remind_at (apply_settings fm bm ms goal su sbe s) = remind_at s"
  "mode s = Focus \<Longrightarrow> \<not> running s \<Longrightarrow> \<not> microbreak_active s
    \<Longrightarrow> remaining (apply_settings fm bm ms goal su sbe s) = fm * 60"
  by (simp_all add: apply_settings_def Let_def)

section \<open>Properties of the transitions\<close>

text \<open>
  What \<open>apply_settings\<close> does to \<open>remaining\<close>, mode by mode: an idle clock gets the focus
  length in focus and the break length in break and in lunch; a running clock or one in a
  microbreak keeps its countdown.
\<close>

lemma apply_settings_remaining:
  "(\<not> running s \<and> \<not> microbreak_active s \<longrightarrow>
      mode (apply_settings fm bm ms goal su sbe s) = mode s
    \<and> remaining (apply_settings fm bm ms goal su sbe s) =
        (case mode s of Focus \<Rightarrow> fm * 60 | Break \<Rightarrow> bm * 60 | Lunch \<Rightarrow> bm * 60))
   \<and> (running s \<or> microbreak_active s \<longrightarrow>
      mode (apply_settings fm bm ms goal su sbe s) = mode s
    \<and> remaining (apply_settings fm bm ms goal su sbe s) = remaining s)"
  by (cases "mode s") (auto simp add: apply_settings_def Let_def)

text \<open>
  C1. The claim asks for \<open>remaining = 3600\<close> after \<open>apply_settings\<close> on an idle clock in
  lunch mode. On the default state, after lunch was started and then paused, applying the
  default settings leaves the mode at lunch and sets \<open>remaining\<close> to the break length, 600.
\<close>

theorem apply_settings_lunch_remaining:
  "mode paused_lunch = Lunch \<and> \<not> running paused_lunch \<and> \<not> microbreak_active paused_lunch
   \<and> remaining paused_lunch = 3600
   \<and> mode (apply_settings 50 10 60 7 1 True paused_lunch) = Lunch
   \<and> remaining (apply_settings 50 10 60 7 1 True paused_lunch) = 600"
  by (simp add: paused_lunch_def apply_settings_def pause_def start_lunch_break_def
       default_state_def Let_def roll_frame)

text \<open>
  C2. In the study profile, with \<open>completed_units = session_goal - 1\<close>, \<open>finish_focus_unit\<close>
  brings the counter to the goal, marks the session finished, stops the clock, clears the
  microbreak overlay and keeps the mode. The tick that takes \<open>remaining\<close> from 1 to 0 in a
  running focus phase does the same.
\<close>

theorem finish_focus_unit_goal_reached:
  assumes "profile s = Study" and "completed_units s = session_goal s - 1"
  shows "(let s' = finish_focus_unit b s in
            completed_units s' = session_goal s \<and> session_goal s' = session_goal s
          \<and> finished s' \<and> \<not> running s'
          \<and> \<not> microbreak_active s' \<and> microbreak_remaining s' = 0
          \<and> after_micro s' = No_after
          \<and> mode s' = mode s)
       \<and> (running s \<and> \<not> finished s \<and> \<not> microbreak_active s \<and> mode s = Focus
            \<and> remaining s = 1 \<longrightarrow>
           (let s' = on_tick s in
              remaining s' = 0
            \<and> completed_units s' = session_goal s \<and> session_goal s' = session_goal s
            \<and> finished s' \<and> \<not> running s'
            \<and> \<not> microbreak_active s' \<and> microbreak_remaining s' = 0
            \<and> after_micro s' = No_after
            \<and> mode s' = Focus))"
  using assms
  by (simp add: finish_focus_unit_def mark_finished_def on_tick_def on_tick_phase_end_def
        Let_def roll_frame)

theorem finish_focus_unit_goal_reached_witness:
  "profile last_unit = Study \<and> completed_units last_unit = session_goal last_unit - 1
   \<and> completed_units (finish_focus_unit True last_unit) = 7
   \<and> finished (finish_focus_unit True last_unit)
   \<and> mode (finish_focus_unit True last_unit) = Focus
   \<and> remaining (on_tick last_unit) = 0
   \<and> completed_units (on_tick last_unit) = 7
   \<and> finished (on_tick last_unit) \<and> \<not> running (on_tick last_unit)
   \<and> \<not> microbreak_active (on_tick last_unit)
   \<and> mode (on_tick last_unit) = Focus"
proof -
  have h: "profile last_unit = Study" "completed_units last_unit = session_goal last_unit - 1"
    by (simp_all add: last_unit_def default_state_def)
  have v: "running last_unit" "\<not> finished last_unit" "\<not> microbreak_active last_unit"
    "mode last_unit = Focus" "remaining last_unit = 1" "session_goal last_unit = 7"
    by (simp_all add: last_unit_def default_state_def)
  from finish_focus_unit_goal_reached [OF h, of True] h v
  show ?thesis by (simp add: Let_def)
qed

text \<open>
  C3. In the study profile, not finished, outside a microbreak and in focus mode, with
  \<open>elapsed = focus_min * 60 - remaining\<close>: \<open>rewind_phase\<close> restarts the focus phase and keeps
  the counter when \<open>elapsed > 10\<close>; it restarts the focus phase with the counter at 0 when
  \<open>elapsed \<le> 10\<close> and no unit is completed; it takes one unit back and switches to a full
  break when \<open>elapsed \<le> 10\<close> and a unit is completed.
\<close>

theorem rewind_phase_focus:
  assumes "profile s = Study" and "\<not> finished s" and "\<not> microbreak_active s"
    and "mode s = Focus"
  shows "(focus_min s * 60 - remaining s > 10 \<longrightarrow>
            remaining (rewind_phase s) = focus_min s * 60
          \<and> completed_units (rewind_phase s) = completed_units s
          \<and> mode (rewind_phase s) = Focus)
       \<and> (focus_min s * 60 - remaining s \<le> 10 \<and> completed_units s = 0 \<longrightarrow>
            remaining (rewind_phase s) = focus_min s * 60
          \<and> completed_units (rewind_phase s) = 0
          \<and> mode (rewind_phase s) = Focus)
       \<and> (focus_min s * 60 - remaining s \<le> 10 \<and> completed_units s > 0 \<longrightarrow>
            completed_units (rewind_phase s) = completed_units s - 1
          \<and> mode (rewind_phase s) = Break
          \<and> remaining (rewind_phase s) = break_min s * 60)"
  using assms
  by (auto simp add: rewind_phase_def elapsed_in_phase_def THRESHOLD_SEC_def Let_def
        switch_frame)

theorem rewind_phase_focus_witness:
  "profile past_threshold = Study \<and> \<not> finished past_threshold
   \<and> \<not> microbreak_active past_threshold \<and> mode past_threshold = Focus
   \<and> focus_min past_threshold * 60 - remaining past_threshold > 10
   \<and> remaining (rewind_phase past_threshold) = 3000
   \<and> completed_units (rewind_phase past_threshold) = 3
   \<and> profile first_unit = Study \<and> \<not> finished first_unit
   \<and> \<not> microbreak_active first_unit \<and> mode first_unit = Focus
   \<and> focus_min first_unit * 60 - remaining first_unit \<le> 10
   \<and> completed_units first_unit = 0
   \<and> remaining (rewind_phase first_unit) = 3000
   \<and> completed_units (rewind_phase first_unit) = 0
   \<and> profile near_start = Study \<and> \<not> finished near_start
   \<and> \<not> microbreak_active near_start \<and> mode near_start = Focus
   \<and> focus_min near_start * 60 - remaining near_start \<le> 10
   \<and> completed_units near_start > 0
   \<and> completed_units (rewind_phase near_start) = 2
   \<and> mode (rewind_phase near_start) = Break
   \<and> remaining (rewind_phase near_start) = 600"
proof -
  have d: "profile past_threshold = Study" "\<not> finished past_threshold"
    "\<not> microbreak_active past_threshold" "mode past_threshold = Focus"
    by (simp_all add: past_threshold_def default_state_def)
  have d': "focus_min past_threshold * 60 - remaining past_threshold > 10"
    "focus_min past_threshold = 50" "completed_units past_threshold = 3"
    by (simp_all add: past_threshold_def default_state_def)
  have f: "profile first_unit = Study" "\<not> finished first_unit"
    "\<not> microbreak_active first_unit" "mode first_unit = Focus"
    by (simp_all add: first_unit_def default_state_def)
  have f': "focus_min first_unit * 60 - remaining first_unit \<le> 10"
    "completed_units first_unit = 0" "focus_min first_unit = 50"
    by (simp_all add: first_unit_def default_state_def)
  have c: "profile near_start = Study" "\<not> finished near_start"
    "\<not> microbreak_active near_start" "mode near_start = Focus"
    by (simp_all add: near_start_def default_state_def)
  have c': "focus_min near_start * 60 - remaining near_start \<le> 10"
    "completed_units near_start = 3" "break_min near_start = 10"
    by (simp_all add: near_start_def default_state_def)
  from rewind_phase_focus [OF d] rewind_phase_focus [OF f] rewind_phase_focus [OF c]
    d d' f f' c c'
  show ?thesis by simp
qed

text \<open>
  C4. In the study profile, running, not finished, in a microbreak with more than one
  second left, \<open>on_tick\<close> leaves \<open>remaining\<close>, \<open>mode\<close> and \<open>completed_units\<close> alone, adds one
  to \<open>total_open_sec\<close> and to \<open>microbreak_sec\<close> and takes one from \<open>microbreak_remaining\<close>;
  the microbreak goes on and its continuation is kept.
\<close>

theorem on_tick_microbreak_frozen:
  assumes "profile s = Study" and "running s" and "\<not> finished s"
    and "microbreak_active s" and "microbreak_remaining s > 1"
  shows "remaining (on_tick s) = remaining s
       \<and> mode (on_tick s) = mode s
       \<and> completed_units (on_tick s) = completed_units s
       \<and> total_open_sec (on_tick s) = total_open_sec s + 1
       \<and> microbreak_sec (on_tick s) = microbreak_sec s + 1
       \<and> microbreak_remaining (on_tick s) = microbreak_remaining s - 1
       \<and> microbreak_active (on_tick s)
       \<and> after_micro (on_tick s) = after_micro s"
  using assms by (simp add: on_tick_def Let_def roll_frame)

theorem on_tick_microbreak_frozen_witness:
  "profile in_microbreak = Study \<and> running in_microbreak \<and> \<not> finished in_microbreak
   \<and> microbreak_active in_microbreak \<and> microbreak_remaining in_microbreak > 1
   \<and> remaining (on_tick in_microbreak) = 2400
   \<and> mode (on_tick in_microbreak) = Focus
   \<and> completed_units (on_tick in_microbreak) = 0
   \<and> total_open_sec (on_tick in_microbreak) = 1
   \<and> microbreak_sec (on_tick in_microbreak) = 1
   \<and> microbreak_remaining (on_tick in_microbreak) = 59
   \<and> microbreak_active (on_tick in_microbreak)"
proof -
  have h: "profile in_microbreak = Study" "running in_microbreak" "\<not> finished in_microbreak"
    "microbreak_active in_microbreak" "microbreak_remaining in_microbreak > 1"
    by (simp_all add: in_microbreak_def default_state_def)
  have v: "remaining in_microbreak = 2400" "mode in_microbreak = Focus"
    "completed_units in_microbreak = 0" "total_open_sec in_microbreak = 0"
    "microbreak_sec in_microbreak = 0" "microbreak_remaining in_microbreak = 60"
    by (simp_all add: in_microbreak_def default_state_def)
  from on_tick_microbreak_frozen [OF h] h v show ?thesis by simp
qed

text \<open>
  C5. On a state that is not finished, \<open>start_lunch_break\<close> stores mode, remaining and
  running in the snapshot, clears the microbreak overlay and sets lunch mode, 3600 seconds
  and running. In the study profile each of the first 3599 ticks stays in lunch mode and
  counts one second down, and the tick number 3600, the first to bring \<open>remaining\<close> to 0,
  gives back the mode, the remaining seconds and the running flag of the state before lunch;
  \<open>completed_units\<close> is the same all along. In the worklog profile the ticks never count
  \<open>remaining\<close> down, so lunch never expires there.
\<close>

theorem start_lunch_break_roundtrip:
  assumes "\<not> finished s"
  shows "pre_lunch_mode (start_lunch_break s) = mode s
       \<and> pre_lunch_remaining (start_lunch_break s) = remaining s
       \<and> pre_lunch_was_running (start_lunch_break s) = running s
       \<and> \<not> microbreak_active (start_lunch_break s)
       \<and> microbreak_remaining (start_lunch_break s) = 0
       \<and> after_micro (start_lunch_break s) = No_after
       \<and> mode (start_lunch_break s) = Lunch
       \<and> remaining (start_lunch_break s) = 3600
       \<and> running (start_lunch_break s)
       \<and> (profile s = Study \<longrightarrow>
            (\<forall>k<3600. mode ((on_tick ^^ k) (start_lunch_break s)) = Lunch
                    \<and> remaining ((on_tick ^^ k) (start_lunch_break s)) = 3600 - int k
                    \<and> completed_units ((on_tick ^^ k) (start_lunch_break s))
                        = completed_units s)
          \<and> mode ((on_tick ^^ 3600) (start_lunch_break s)) = mode s
          \<and> remaining ((on_tick ^^ 3600) (start_lunch_break s)) = remaining s
          \<and> running ((on_tick ^^ 3600) (start_lunch_break s)) = running s
          \<and> completed_units ((on_tick ^^ 3600) (start_lunch_break s)) = completed_units s)
       \<and> (profile s = Worklog \<longrightarrow>
            (\<forall>k. mode ((on_tick ^^ k) (start_lunch_break s)) = Lunch
                \<and> remaining ((on_tick ^^ k) (start_lunch_break s)) = 3600
                \<and> completed_units ((on_tick ^^ k) (start_lunch_break s))
                    = completed_units s))"
proof -
  note f = start_lunch_break_fields [OF assms]
  have study: "\<forall>k<3600. mode ((on_tick ^^ k) (start_lunch_break s)) = Lunch
                    \<and> remaining ((on_tick ^^ k) (start_lunch_break s)) = 3600 - int k
                    \<and> completed_units ((on_tick ^^ k) (start_lunch_break s))
                        = completed_units s"
    if p: "profile s = Study"
  proof (intro allI impI)
    fix k :: nat
    assume "k < 3600"
    then have "int k < remaining (start_lunch_break s)" using f(8) by simp
    from lunch_countdown [OF _ f(10) f(9) f(4) f(7) this] p f
    show "mode ((on_tick ^^ k) (start_lunch_break s)) = Lunch
                    \<and> remaining ((on_tick ^^ k) (start_lunch_break s)) = 3600 - int k
                    \<and> completed_units ((on_tick ^^ k) (start_lunch_break s))
                        = completed_units s"
      by simp
  qed
  have fin: "mode ((on_tick ^^ 3600) (start_lunch_break s)) = mode s
          \<and> remaining ((on_tick ^^ 3600) (start_lunch_break s)) = remaining s
          \<and> running ((on_tick ^^ 3600) (start_lunch_break s)) = running s
          \<and> completed_units ((on_tick ^^ 3600) (start_lunch_break s)) = completed_units s"
    if p: "profile s = Study"
  proof -
    have n: "(3600::nat) = Suc 3599" by simp
    have "remaining (start_lunch_break s) = int (Suc 3599)" using f(8) by simp
    from lunch_expiry [OF _ f(10) f(9) f(4) f(7) this] p f
    show ?thesis unfolding n by simp
  qed
  have wl: "\<forall>k. mode ((on_tick ^^ k) (start_lunch_break s)) = Lunch
                \<and> remaining ((on_tick ^^ k) (start_lunch_break s)) = 3600
                \<and> completed_units ((on_tick ^^ k) (start_lunch_break s))
                    = completed_units s"
    if p: "profile s = Worklog"
  proof
    fix k
    from worklog_ticks [of "start_lunch_break s" k] p f
    show "mode ((on_tick ^^ k) (start_lunch_break s)) = Lunch
                \<and> remaining ((on_tick ^^ k) (start_lunch_break s)) = 3600
                \<and> completed_units ((on_tick ^^ k) (start_lunch_break s))
                    = completed_units s"
      by simp
  qed
  from f study fin wl show ?thesis by blast
qed

theorem start_lunch_break_roundtrip_witness:
  "\<not> finished near_start \<and> profile near_start = Study
   \<and> mode (start_lunch_break near_start) = Lunch
   \<and> remaining (start_lunch_break near_start) = 3600
   \<and> running (start_lunch_break near_start)
   \<and> remaining ((on_tick ^^ 3599) (start_lunch_break near_start)) = 1
   \<and> mode ((on_tick ^^ 3600) (start_lunch_break near_start)) = Focus
   \<and> remaining ((on_tick ^^ 3600) (start_lunch_break near_start)) = 2995
   \<and> \<not> running ((on_tick ^^ 3600) (start_lunch_break near_start))
   \<and> completed_units ((on_tick ^^ 3600) (start_lunch_break near_start)) = 3"
proof -
  have h: "\<not> finished near_start" by (simp add: near_start_def default_state_def)
  have p: "profile near_start = Study" "mode near_start = Focus" "remaining near_start = 2995"
    "\<not> running near_start" "completed_units near_start = 3"
    by (simp_all add: near_start_def default_state_def)
  have k: "(3599::nat) < 3600" by simp
  from start_lunch_break_roundtrip [OF h] p h k
  show ?thesis by fastforce
qed

text \<open>
  C6. With screen breaks switched off or a microbreak length of zero or less,
  \<open>start_microbreak\<close> leaves no microbreak active and runs the continuation at once:
  \<open>Go_break\<close> gives a full break, \<open>Go_focus\<close> a full focus phase, \<open>Resume_focus\<close> keeps mode
  and remaining; \<open>after_micro\<close> is empty afterwards.
\<close>

theorem start_microbreak_disabled:
  assumes "\<not> screen_breaks_enabled s \<or> micro_sec s \<le> 0"
  shows "\<not> microbreak_active (start_microbreak after s)
       \<and> after_micro (start_microbreak after s) = No_after
       \<and> (after = Go_break \<longrightarrow>
            mode (start_microbreak after s) = Break
          \<and> remaining (start_microbreak after s) = break_min s * 60)
       \<and> (after = Go_focus \<longrightarrow>
            mode (start_microbreak after s) = Focus
          \<and> remaining (start_microbreak after s) = focus_min s * 60)
       \<and> (after = Resume_focus \<longrightarrow>
            mode (start_microbreak after s) = mode s
          \<and> remaining (start_microbreak after s) = remaining s)"
  using assms
  by (cases after)
     (auto simp add: start_microbreak_def end_microbreak_def switch_to_break_def
        switch_to_focus_def Let_def roll_frame)

theorem start_microbreak_disabled_witness:
  "\<not> screen_breaks_enabled breaks_off
   \<and> \<not> microbreak_active (start_microbreak Go_break breaks_off)
   \<and> after_micro (start_microbreak Go_break breaks_off) = No_after
   \<and> mode (start_microbreak Go_break breaks_off) = Break
   \<and> remaining (start_microbreak Go_break breaks_off) = 600
   \<and> micro_sec zero_micro \<le> 0
   \<and> \<not> microbreak_active (start_microbreak Go_focus zero_micro)
   \<and> mode (start_microbreak Go_focus zero_micro) = Focus
   \<and> remaining (start_microbreak Go_focus zero_micro) = 3000
   \<and> \<not> microbreak_active (start_microbreak Resume_focus zero_micro)
   \<and> mode (start_microbreak Resume_focus zero_micro) = Focus
   \<and> remaining (start_microbreak Resume_focus zero_micro) = 2400"
proof -
  have b': "\<not> screen_breaks_enabled breaks_off"
    by (simp add: breaks_off_def default_state_def)
  have z': "micro_sec zero_micro \<le> 0"
    by (simp add: zero_micro_def default_state_def)
  have b: "\<not> screen_breaks_enabled breaks_off \<or> micro_sec breaks_off \<le> 0"
    using b' by simp
  have z: "\<not> screen_breaks_enabled zero_micro \<or> micro_sec zero_micro \<le> 0"
    using z' by simp
  have v: "break_min breaks_off = 10" "focus_min zero_micro = 50" "mode zero_micro = Focus"
    "remaining zero_micro = 2400"
    by (simp_all add: breaks_off_def zero_micro_def default_state_def)
  from start_microbreak_disabled [OF b, of Go_break]
    start_microbreak_disabled [OF z, of Go_focus]
    start_microbreak_disabled [OF z, of Resume_focus] b' z' v
  show ?thesis by simp
qed




text \<open>
  The log gets a gap when the window closes the open segment itself: on the clock whose
  \<open>n\<close>-th reading is \<open>n\<close>, \<open>start\<close>, the CSV export, \<open>pause\<close> and \<open>start\<close> log a focus
  segment from 0 to 1 and a paused segment from 2 to 3. And an entry ends before it starts
  when the clock is set back between the opening and the closing of a segment: on the
  clock that reads 9000 and then 1, \<open>start\<close> followed by \<open>pause\<close> logs a focus segment from
  9000 to 1.
\<close>

theorem segment_log_counterexample:
  "log (window_run (default_state int)
         [Engine Start, ExportToCsv, Engine Pause, Engine Start])
     = [\<lparr>entry_kind = FOCUS, entry_start = 0, entry_end = 1\<rparr>,
        \<lparr>entry_kind = PAUSED, entry_start = 2, entry_end = 3\<rparr>]
   \<and> entry_end (log (window_run (default_state int)
         [Engine Start, ExportToCsv, Engine Pause, Engine Start]) ! 0)
      \<noteq> entry_start (log (window_run (default_state int)
         [Engine Start, ExportToCsv, Engine Pause, Engine Start]) ! Suc 0)
   \<and> log (run (default_state set_back_clock) [Start, Pause])
     = [\<lparr>entry_kind = FOCUS, entry_start = 9000, entry_end = 1\<rparr>]
   \<and> \<not> (entry_start (hd (log (run (default_state set_back_clock) [Start, Pause])))
          \<le> entry_end (hd (log (run (default_state set_back_clock) [Start, Pause]))))"
  by (simp add: default_state_def set_back_clock_def start_def pause_def export_to_csv_def
        roll_segment_if_needed_def now_def current_kind_def open_segment_def
        close_segment_def Let_def)

text \<open>
  C8, amended. Start from any state with an empty log and no open segment, as the
  dataclass defaults and the state the window builds at startup are. After any sequence
  of the public operations of the engine, each entry of the segment log ends at the
  instant the next one starts, whatever the clock does. After any sequence of what the
  window does, that is the public operations, the profile toggle, the CSV export and the
  worklog flush, which close the open segment themselves, and when the readings of the
  clock never decrease, no entry ends after the next one starts and no entry ends before
  it starts.
\<close>

theorem segment_log_gap_free:
  assumes "log s0 = []" and "segment_start s0 = None" and "segment_kind s0 = None"
  shows "(\<forall>i. Suc i < length (log (run s0 es)) \<longrightarrow>
            entry_end (log (run s0 es) ! i) = entry_start (log (run s0 es) ! Suc i))
       \<and> (mono (wall s0) \<longrightarrow>
            (\<forall>i. Suc i < length (log (window_run s0 ws)) \<longrightarrow>
                entry_end (log (window_run s0 ws) ! i)
                  \<le> entry_start (log (window_run s0 ws) ! Suc i))
          \<and> (\<forall>e\<in>set (log (window_run s0 ws)). entry_start e \<le> entry_end e))"
proof -
  from log_inv_run [OF log_inv_initial [OF assms], of False es]
  have "gap_free (log (run s0 es))" by (simp add: log_inv_def)
  then have tight: "\<forall>i. Suc i < length (log (run s0 es)) \<longrightarrow>
            entry_end (log (run s0 es) ! i) = entry_start (log (run s0 es) ! Suc i)"
    by (simp add: gap_free_nth)
  from log_inv_window_run [OF log_inv_initial [OF assms], of ws]
  have w: "wall (window_run s0 ws) = wall s0"
    "mono (wall s0) \<longrightarrow> no_overlap (log (window_run s0 ws))
       \<and> (\<forall>e\<in>set (log (window_run s0 ws)). entry_start e \<le> entry_end e)"
    by (simp_all add: log_inv_def)
  from tight w show ?thesis by (simp add: no_overlap_nth)
qed

theorem segment_log_gap_free_witness:
  "log (default_state int) = [] \<and> segment_start (default_state int) = None
   \<and> segment_kind (default_state int) = None \<and> mono (wall (default_state int))
   \<and> log (run (default_state int) [Start, Pause, Start, StartLunchBreak]) =
       [\<lparr>entry_kind = FOCUS, entry_start = 0, entry_end = 1\<rparr>,
        \<lparr>entry_kind = PAUSED, entry_start = 1, entry_end = 2\<rparr>,
        \<lparr>entry_kind = FOCUS, entry_start = 2, entry_end = 3\<rparr>]
   \<and> entry_end (log (run (default_state int) [Start, Pause, Start, StartLunchBreak]) ! 0)
       = entry_start (log (run (default_state int) [Start, Pause, Start, StartLunchBreak]) ! Suc 0)
   \<and> entry_end (log (run (default_state int) [Start, Pause, Start, StartLunchBreak]) ! 1)
       = entry_start (log (run (default_state int) [Start, Pause, Start, StartLunchBreak]) ! Suc 1)
   \<and> log (window_run (default_state int)
         [Engine Start, ExportToCsv, Engine Pause, ToggleProfile, Engine Start, ExportToCsv]) =
       [\<lparr>entry_kind = FOCUS, entry_start = 0, entry_end = 1\<rparr>,
        \<lparr>entry_kind = PAUSED, entry_start = 2, entry_end = 3\<rparr>,
        \<lparr>entry_kind = WORK, entry_start = 4, entry_end = 6\<rparr>]
   \<and> entry_end (log (window_run (default_state int)
         [Engine Start, ExportToCsv, Engine Pause, ToggleProfile, Engine Start, ExportToCsv]) ! 0)
       \<le> entry_start (log (window_run (default_state int)
         [Engine Start, ExportToCsv, Engine Pause, ToggleProfile, Engine Start, ExportToCsv]) ! Suc 0)
   \<and> list_all (\<lambda>e. entry_start e \<le> entry_end e)
         (log (window_run (default_state int)
           [Engine Start, ExportToCsv, Engine Pause, ToggleProfile, Engine Start, ExportToCsv]))"
proof -
  have i: "log (default_state int) = []" "segment_start (default_state int) = None"
    "segment_kind (default_state int) = None"
    by (simp_all add: default_state_def)
  have m: "mono (wall (default_state int))" by (simp add: default_state_def mono_def)
  have l: "log (run (default_state int) [Start, Pause, Start, StartLunchBreak]) =
       [\<lparr>entry_kind = FOCUS, entry_start = 0, entry_end = 1\<rparr>,
        \<lparr>entry_kind = PAUSED, entry_start = 1, entry_end = 2\<rparr>,
        \<lparr>entry_kind = FOCUS, entry_start = 2, entry_end = 3\<rparr>]"
    by (simp add: default_state_def start_def pause_def start_lunch_break_def
          roll_segment_if_needed_def now_def current_kind_def open_segment_def
          close_segment_def Let_def)
  have n: "Suc 0 < length (log (run (default_state int) [Start, Pause, Start, StartLunchBreak]))"
    "Suc 1 < length (log (run (default_state int) [Start, Pause, Start, StartLunchBreak]))"
    unfolding l by simp_all
  have k: "log (window_run (default_state int)
         [Engine Start, ExportToCsv, Engine Pause, ToggleProfile, Engine Start, ExportToCsv]) =
       [\<lparr>entry_kind = FOCUS, entry_start = 0, entry_end = 1\<rparr>,
        \<lparr>entry_kind = PAUSED, entry_start = 2, entry_end = 3\<rparr>,
        \<lparr>entry_kind = WORK, entry_start = 4, entry_end = 6\<rparr>]"
    by (simp add: default_state_def start_def pause_def export_to_csv_def
          toggle_profile_def flush_worklog_to_csv_def slice_from_def
          roll_segment_if_needed_def now_def current_kind_def open_segment_def
          close_segment_def Let_def)
  have o: "Suc 0 < length (log (window_run (default_state int)
         [Engine Start, ExportToCsv, Engine Pause, ToggleProfile, Engine Start, ExportToCsv]))"
    unfolding k by simp
  from segment_log_gap_free [OF i,
      of "[Start, Pause, Start, StartLunchBreak]"
         "[Engine Start, ExportToCsv, Engine Pause, ToggleProfile, Engine Start, ExportToCsv]"]
    i m n l k o
  show ?thesis unfolding list_all_iff by blast
qed

text \<open>
  C9. \<open>on_pause_count_tick\<close> adds one to \<open>paused_sec\<close> exactly when the clock is not
  running, not in a microbreak and not finished, whatever the profile; otherwise
  \<open>paused_sec\<close> keeps its value; and no other field of the state changes.
\<close>

theorem on_pause_count_tick_spec:
  "(paused_sec (on_pause_count_tick s) = paused_sec s + 1)
      = (\<not> running s \<and> \<not> microbreak_active s \<and> \<not> finished s)
   \<and> (paused_sec (on_pause_count_tick s) = paused_sec s)
      = (running s \<or> microbreak_active s \<or> finished s)
   \<and> (on_pause_count_tick s)\<lparr>paused_sec := paused_sec s\<rparr> = s"
  by (simp add: on_pause_count_tick_def)

theorem on_pause_count_tick_spec_witness:
  "\<not> running fired_paused \<and> \<not> microbreak_active fired_paused \<and> \<not> finished fired_paused
   \<and> paused_sec (on_pause_count_tick fired_paused) = 1
   \<and> running in_microbreak
   \<and> paused_sec (on_pause_count_tick in_microbreak) = 0"
proof -
  have v: "\<not> running fired_paused" "\<not> microbreak_active fired_paused"
    "\<not> finished fired_paused" "paused_sec fired_paused = 0"
    "running in_microbreak" "paused_sec in_microbreak = 0"
    by (simp_all add: fired_paused_def in_microbreak_def default_state_def)
  from on_pause_count_tick_spec [of fired_paused] on_pause_count_tick_spec [of in_microbreak] v
  show ?thesis by simp
qed

text \<open>
  The threshold 0 fires again although it is in the set: after a session of one unit has
  run to its end, 0 is in \<open>reminded_this_focus\<close>; \<open>apply_settings\<close> with a goal of two
  units keeps the set, keeps the focus mode and resets \<open>remaining\<close> to the full minute; and
  the tick that brings \<open>remaining\<close> to 0 again completes a unit and switches to the break,
  with no \<open>switch_to_focus\<close> in between. And \<open>reset_all\<close> empties the set of a focus phase
  without \<open>switch_to_focus\<close>.
\<close>

theorem apply_settings_refire_counterexample:
  "finished zero_fired \<and> mode zero_fired = Focus \<and> reminded_this_focus zero_fired = {0}
   \<and> reminded_this_focus (apply_settings 1 1 60 2 1 False zero_fired) = {0}
   \<and> mode (apply_settings 1 1 60 2 1 False zero_fired) = Focus
   \<and> remaining (apply_settings 1 1 60 2 1 False zero_fired) = 60
   \<and> completed_units (apply_settings 1 1 60 2 1 False zero_fired) = 0
   \<and> completed_units zero_refired = 1
   \<and> mode zero_refired = Break
   \<and> reminded_this_focus zero_refired = {0}
   \<and> mode fired_paused = Focus \<and> reminded_this_focus fired_paused = {2400}
   \<and> reminded_this_focus (reset_all fired_paused) = {}"
  by (simp add: zero_fired_value zero_refired_value apply_settings_def Let_def
        fired_paused_def default_state_def reset_all_def)

text \<open>
  C10, amended. \<open>apply_settings\<close> leaves \<open>reminded_this_focus\<close> (and \<open>remind_at\<close>) as they
  were, also when it resets \<open>remaining\<close> of an idle focus phase to the full focus length.
  So a positive threshold that has fired stays in the set and does not fire again: a tick
  of a running focus phase that lands on it is a plain countdown, and every public
  operation either keeps all thresholds of the set or empties it, as \<open>switch_to_focus\<close>
  and, in the study profile, \<open>reset_all\<close> do. The threshold 0 is different: the tick that
  takes \<open>remaining\<close> from 1 to 0 in a running focus phase completes the unit whether or not
  0 is in the set.
\<close>

theorem apply_settings_keeps_reminded:
  "reminded_this_focus (apply_settings fm bm ms goal su sbe s) = reminded_this_focus s
   \<and> remind_at (apply_settings fm bm ms goal su sbe s) = remind_at s
   \<and> (mode s = Focus \<and> \<not> running s \<and> \<not> microbreak_active s \<longrightarrow>
        remaining (apply_settings fm bm ms goal su sbe s) = fm * 60)
   \<and> (profile s = Study \<and> running s \<and> \<not> finished s \<and> \<not> microbreak_active s
        \<and> mode s = Focus \<and> remaining s - 1 \<in> reminded_this_focus s
        \<and> remaining s - 1 > 0 \<longrightarrow>
        \<not> microbreak_active (on_tick s)
      \<and> reminded_this_focus (on_tick s) = reminded_this_focus s
      \<and> remaining (on_tick s) = remaining s - 1
      \<and> mode (on_tick s) = Focus)
   \<and> (profile s = Study \<and> running s \<and> \<not> finished s \<and> \<not> microbreak_active s
        \<and> mode s = Focus \<and> remaining s = 1 \<longrightarrow>
        completed_units (on_tick s) = completed_units s + 1)
   \<and> (reminded_this_focus (step e s) = {}
        \<or> reminded_this_focus s \<subseteq> reminded_this_focus (step e s))
   \<and> reminded_this_focus (switch_to_focus s) = {}
   \<and> (profile s = Study \<longrightarrow> reminded_this_focus (reset_all s) = {})"
  using reminded_step [of e s] on_tick_last_second [of s] on_tick_reminded_already [of s]
  by (simp add: apply_settings_frame reminded_frame reset_all_def)

theorem apply_settings_keeps_reminded_witness:
  "mode fired_paused = Focus \<and> \<not> running fired_paused \<and> \<not> microbreak_active fired_paused
   \<and> profile fired_paused = Study
   \<and> reminded_this_focus (apply_settings 50 10 60 7 1 True fired_paused) = {2400}
   \<and> remaining (apply_settings 50 10 60 7 1 True fired_paused) = 3000
   \<and> reminded_this_focus (reset_all fired_paused) = {}
   \<and> profile already_reminded = Study \<and> running already_reminded
   \<and> \<not> finished already_reminded \<and> \<not> microbreak_active already_reminded
   \<and> mode already_reminded = Focus
   \<and> remaining already_reminded - 1 \<in> reminded_this_focus already_reminded
   \<and> remaining already_reminded - 1 > 0
   \<and> \<not> microbreak_active (on_tick already_reminded)
   \<and> reminded_this_focus (on_tick already_reminded) = {2400}
   \<and> remaining (on_tick already_reminded) = 2400
   \<and> profile zero_reminded = Study \<and> running zero_reminded \<and> \<not> finished zero_reminded
   \<and> \<not> microbreak_active zero_reminded \<and> mode zero_reminded = Focus
   \<and> remaining zero_reminded = 1 \<and> 0 \<in> reminded_this_focus zero_reminded
   \<and> completed_units (on_tick zero_reminded) = 1"
proof -
  have p: "mode fired_paused = Focus" "\<not> running fired_paused"
    "\<not> microbreak_active fired_paused" "reminded_this_focus fired_paused = {2400}"
    "profile fired_paused = Study"
    by (simp_all add: fired_paused_def default_state_def)
  have r: "profile already_reminded = Study" "running already_reminded"
    "\<not> finished already_reminded" "\<not> microbreak_active already_reminded"
    "mode already_reminded = Focus"
    "remaining already_reminded - 1 \<in> reminded_this_focus already_reminded"
    "remaining already_reminded - 1 > 0"
    by (simp_all add: already_reminded_def default_state_def)
  have v: "reminded_this_focus already_reminded = {2400}" "remaining already_reminded = 2401"
    by (simp_all add: already_reminded_def default_state_def)
  have z: "profile zero_reminded = Study" "running zero_reminded" "\<not> finished zero_reminded"
    "\<not> microbreak_active zero_reminded" "mode zero_reminded = Focus"
    "remaining zero_reminded = 1" "0 \<in> reminded_this_focus zero_reminded"
    "completed_units zero_reminded = 0"
    by (simp_all add: zero_reminded_def default_state_def)
  from apply_settings_keeps_reminded [of 50 10 60 7 1 True fired_paused OnTick]
    apply_settings_keeps_reminded [of 50 10 60 7 1 True already_reminded OnTick]
    apply_settings_keeps_reminded [of 50 10 60 7 1 True zero_reminded OnTick] p r v z
  show ?thesis by simp
qed

end
